theory Spec2Isabelle
  imports Main "HOL-Library.Word"
begin

section \<open>Data model (main.go, lines 21-44)\<close>

text \<open>
  The board is a Go \<^verbatim>\<open>[]byte\<close>; a byte is an 8-bit word. Go's \<^verbatim>\<open>int\<close> is modelled as
  \<^typ>\<open>int\<close> with the two's-complement wrap-around of a 64-bit platform written out at
  every arithmetic operation of the source (\<open>wrap64\<close>).
\<close>

type_synonym byte = "8 word"

record Config =
  Width :: int
  Height :: int
  DefaultColorIndex :: int
  Palette :: "string list"

text \<open>
  \<^verbatim>\<open>ClientPixel\<close> and \<^verbatim>\<open>ServerPixel\<close> both have fields \<^verbatim>\<open>X\<close>, \<^verbatim>\<open>Y\<close>, \<^verbatim>\<open>Color\<close> in the source;
  the fields of the request struct carry the prefix \<open>c\<close> here.
\<close>

record ClientPixel =
  cX :: int
  cY :: int
  cColor :: int

record ServerPixel =
  X :: int
  Y :: int
  Color :: int
  Time :: int

text \<open>The package-level variables \<^verbatim>\<open>board\<close> and \<^verbatim>\<open>placementData\<close>.\<close>

record state =
  board :: "byte list"
  placementData :: "ServerPixel list"

section \<open>Go primitives used by the source\<close>

definition wrap64 :: "int \<Rightarrow> int" where
  "wrap64 n = (n + 2 ^ 63) mod 2 ^ 64 - 2 ^ 63"

definition go_mul :: "int \<Rightarrow> int \<Rightarrow> int" where
  "go_mul a b = wrap64 (a * b)"

definition go_add :: "int \<Rightarrow> int \<Rightarrow> int" where
  "go_add a b = wrap64 (a + b)"

text \<open>The conversion \<^verbatim>\<open>byte(n)\<close> keeps the low eight bits.\<close>

definition to_byte :: "int \<Rightarrow> byte" where
  "to_byte n = word_of_int n"

text \<open>
  What stops the process before it serves a request: \<^verbatim>\<open>log.Fatalln\<close> and \<^verbatim>\<open>log.Fatalf\<close>
  print and call \<^verbatim>\<open>os.Exit(1)\<close>; \<^verbatim>\<open>make\<close> panics with \<^verbatim>\<open>makeslice: len out of range\<close>; the
  runtime stops with \<^verbatim>\<open>out of memory\<close>.
\<close>

datatype abort =
    Fatal string
  | FatalSizeMismatch int int
  | PanicMakeslice
  | OutOfMemory

text \<open>
  What the allocator of the machine allows: \<open>maxAlloc\<close> is the runtime's bound on the size
  of one allocation (\<open>2 ^ 48\<close> bytes on linux/amd64), \<open>freeMemory\<close> the number of bytes the
  operating system can still give to the process.
\<close>

record machine =
  maxAlloc :: int
  freeMemory :: int

text \<open>
  \<^verbatim>\<open>make([]byte, n)\<close>: \<^verbatim>\<open>runtime.makeslice\<close> panics when \<open>n\<close> is negative or larger than
  \<open>maxAlloc\<close>; the allocation itself fails when the memory is not there; otherwise the
  result is a zeroed slice of length \<open>n\<close>.
\<close>

definition make_bytes :: "machine \<Rightarrow> int \<Rightarrow> abort + byte list" where
  "make_bytes m n =
     (if n < 0 \<or> maxAlloc m < n then Inl PanicMakeslice
      else if freeMemory m < n then Inl OutOfMemory
      else Inr (replicate (nat n) 0))"

text \<open>
  Indexing a slice checks the bounds: \<^verbatim>\<open>s[i]\<close> and \<^verbatim>\<open>s[i] = v\<close> panic unless
  \<open>0 \<le> i < len(s)\<close>. \<open>None\<close> is that panic.
\<close>

definition go_load :: "'a list \<Rightarrow> int \<Rightarrow> 'a option" where
  "go_load s i = (if 0 \<le> i \<and> i < int (length s) then Some (s ! nat i) else None)"

definition go_store :: "'a list \<Rightarrow> int \<Rightarrow> 'a \<Rightarrow> 'a list option" where
  "go_store s i v = (if 0 \<le> i \<and> i < int (length s) then Some (s[nat i := v]) else None)"

text \<open>
  \<^verbatim>\<open>slices.IndexFunc(s, f)\<close>: the loop \<^verbatim>\<open>for i := range s { if f(s[i]) { return i } }\<close>
  followed by \<^verbatim>\<open>return -1\<close>. \<open>IndexFunc_from i\<close> is the loop standing at index \<open>i\<close>.
\<close>

fun IndexFunc_from :: "int \<Rightarrow> 'a list \<Rightarrow> ('a \<Rightarrow> bool) \<Rightarrow> int" where
  "IndexFunc_from i [] f = - 1"
| "IndexFunc_from i (v # s) f = (if f v then i else IndexFunc_from (i + 1) s f)"

definition IndexFunc :: "'a list \<Rightarrow> ('a \<Rightarrow> bool) \<Rightarrow> int" where
  "IndexFunc s f = IndexFunc_from 0 s f"

section \<open>The request handlers (main.go, lines 83-139)\<close>

text \<open>
  What a handler leaves behind. \<open>Status c\<close> is \<^verbatim>\<open>c.Status(c)\<close>, \<open>BadRequest m\<close> is
  \<^verbatim>\<open>badRequest(c, m)\<close> (status 400 with the message), \<open>JSON200\<close> and \<open>Data200\<close> are the two
  successful bodies. \<open>Panicked s\<close> is a run-time panic inside the handler; \<open>s\<close> is the
  status code the handler had recorded with \<^verbatim>\<open>c.Status\<close> before it panicked, if any.
\<close>

datatype response =
    Status nat
  | BadRequest string
  | JSON200 ServerPixel
  | Data200 "byte list"
  | Panicked "nat option"

text \<open>The expression \<^verbatim>\<open>y*width+x\<close> of lines 130, 146 and 148, in Go's \<^verbatim>\<open>int\<close>.\<close>

definition cellIndex :: "Config \<Rightarrow> int \<Rightarrow> int \<Rightarrow> int" where
  "cellIndex cfg x y = go_add (go_mul y (Width cfg)) x"

text \<open>\<^verbatim>\<open>expectedSize := width * height\<close> (line 50).\<close>

definition expectedSize :: "Config \<Rightarrow> int" where
  "expectedSize cfg = go_mul (Width cfg) (Height cfg)"

text \<open>\<^verbatim>\<open>GET /board\<close>: the whole buffer.\<close>

definition getBoard :: "state \<Rightarrow> response \<times> state" where
  "getBoard st = (Data200 (board st), st)"

text \<open>The read \<^verbatim>\<open>board[y*width+x]\<close> of the \<^verbatim>\<open>GET /image\<close> loop (lines 146 and 148).\<close>

definition boardAt :: "Config \<Rightarrow> state \<Rightarrow> int \<Rightarrow> int \<Rightarrow> byte option" where
  "boardAt cfg st x y = go_load (board st) (cellIndex cfg x y)"

text \<open>
  \<^verbatim>\<open>GET /pixel\<close> from line 103 on, with the query parameters already parsed to \<open>x\<close> and
  \<open>y\<close>. When \<^verbatim>\<open>IndexFunc\<close> returns \<open>-1\<close> the handler records status 404 and, having no
  \<^verbatim>\<open>return\<close> there, goes on to \<^verbatim>\<open>placementData[pixelIndex]\<close>.
\<close>

definition getPixel :: "state \<Rightarrow> int \<Rightarrow> int \<Rightarrow> response \<times> state" where
  "getPixel st x y =
     (let pixelIndex = IndexFunc (placementData st) (\<lambda>pixel. X pixel = x \<and> Y pixel = y);
          recorded = (if pixelIndex = - 1 then Some 404 else None)
      in case go_load (placementData st) pixelIndex of
           None \<Rightarrow> (Panicked recorded, st)
         | Some pixel \<Rightarrow> (JSON200 pixel, st))"

text \<open>
  \<^verbatim>\<open>POST /pixel\<close>. \<open>body\<close> is the result of \<^verbatim>\<open>c.BindJSON\<close> (\<open>None\<close> when it fails) and
  \<open>now\<close> the value of \<^verbatim>\<open>time.Now().UnixMilli()\<close>.
\<close>

definition postPixel :: "Config \<Rightarrow> ClientPixel option \<Rightarrow> int \<Rightarrow> state \<Rightarrow> response \<times> state" where
  "postPixel cfg body now st =
     (case body of
        None \<Rightarrow> (BadRequest ''malformed body'', st)
      | Some clientPlace \<Rightarrow>
          if cColor clientPlace < 0 \<or> cColor clientPlace > 255 then
            (BadRequest ''color out of range'', st)
          else if cX clientPlace < 0 \<or> cX clientPlace \<ge> Width cfg then
            (BadRequest ''x-coordinate out of range'', st)
          else if cY clientPlace < 0 \<or> cY clientPlace \<ge> Height cfg then
            (BadRequest ''y-coordinate out of range'', st)
          else
            (case go_store (board st) (cellIndex cfg (cX clientPlace) (cY clientPlace))
                    (to_byte (cColor clientPlace)) of
               None \<Rightarrow> (Panicked None, st)
             | Some board' \<Rightarrow>
                 (Status 200,
                  \<lparr>board = board',
                   placementData = placementData st @
                     [\<lparr>X = cX clientPlace, Y = cY clientPlace,
                       Color = cColor clientPlace, Time = now\<rparr>]\<rparr>)))"

text \<open>The names the specification gives to the two validation failures.\<close>

definition InvalidColor :: response where
  "InvalidColor = BadRequest ''color out of range''"

definition OutOfBounds :: "response \<Rightarrow> bool" where
  "OutOfBounds r \<longleftrightarrow>
     r = BadRequest ''x-coordinate out of range'' \<or> r = BadRequest ''y-coordinate out of range''"

text \<open>
  The specification's \<open>Place(x, y, colorIndex, now)\<close> is \<^verbatim>\<open>POST /pixel\<close> with a body that
  bound successfully, and \<open>FindLatest(x, y)\<close> is \<^verbatim>\<open>GET /pixel\<close>.
\<close>

definition Place :: "Config \<Rightarrow> int \<Rightarrow> int \<Rightarrow> int \<Rightarrow> int \<Rightarrow> state \<Rightarrow> response \<times> state" where
  "Place cfg x y colorIndex now st =
     postPixel cfg (Some \<lparr>cX = x, cY = y, cColor = colorIndex\<rparr>) now st"

section \<open>Persistence (main.go, lines 168-234)\<close>

text \<open>
  A path on disk, as the load functions see it: \<^verbatim>\<open>os.Stat\<close> reports that nothing is
  there, or fails otherwise, or succeeds on a file with the given bytes. For a file that
  is there, \<^verbatim>\<open>os.Open\<close> or \<^verbatim>\<open>file.Read\<close> may still fail. The file does not change between
  \<^verbatim>\<open>os.Stat\<close> and \<^verbatim>\<open>file.Read\<close>, so \<^verbatim>\<open>fileInfo.Size()\<close> is the length of the bytes.
\<close>

datatype disk_file =
    NotExist
  | StatFails string
  | Exists "byte list" "string option" "string option"

text \<open>
  \<open>Exists content openErr readErr\<close>: \<open>openErr\<close> and \<open>readErr\<close> are the errors of
  \<^verbatim>\<open>os.Open\<close> and \<^verbatim>\<open>file.Read\<close> coming from the operating system, \<open>None\<close> when there is
  none.

  One call \<^verbatim>\<open>file.Read(buf)\<close> on a freshly opened regular file: the \<^verbatim>\<open>poll.FD.Read\<close> under
  it cuts the buffer to \<open>maxRW = 1 << 30\<close> bytes and issues one \<^verbatim>\<open>read\<close>, so it copies the
  first \<open>min (len(buf), maxRW, size)\<close> bytes of the file over the front of \<open>buf\<close> and
  leaves the rest of \<open>buf\<close> as it was. With a non-empty buffer on an empty file the call
  returns \<^verbatim>\<open>io.EOF\<close> (\<open>None\<close> here). Both callers discard the count of bytes read.
\<close>

definition maxRW :: nat where
  "maxRW = 2 ^ 30"

definition file_Read :: "byte list \<Rightarrow> byte list \<Rightarrow> byte list option" where
  "file_Read content buf =
     (if buf \<noteq> [] \<and> content = [] then None
      else let n = min (min (length buf) maxRW) (length content)
           in Some (take n content @ drop n buf))"

fun loadCanvas :: "machine \<Rightarrow> disk_file \<Rightarrow> int \<Rightarrow> int \<Rightarrow> abort + byte list" where
  "loadCanvas m f expected defaultColor =
     (case make_bytes m expected of
        Inl a \<Rightarrow> Inl a
      | Inr board0 \<Rightarrow>
          (case f of
             NotExist \<Rightarrow> Inr (map (\<lambda>_. to_byte defaultColor) board0)
           | StatFails e \<Rightarrow> Inl (Fatal e)
           | Exists content openErr readErr \<Rightarrow>
               if int (length content) \<noteq> expected
               then Inl (FatalSizeMismatch (int (length content)) expected)
               else (case openErr of
                       Some e \<Rightarrow> Inl (Fatal e)
                     | None \<Rightarrow>
                         (case readErr of
                            Some e \<Rightarrow> Inl (Fatal e)
                          | None \<Rightarrow>
                              (case file_Read content board0 of
                                 None \<Rightarrow> Inl (Fatal ''EOF'')
                               | Some board1 \<Rightarrow> Inr board1)))))"

text \<open>
  \<^verbatim>\<open>json.Unmarshal\<close> and \<^verbatim>\<open>json.Marshal\<close> belong to the standard library and are
  parameters: \<open>unmarshal\<close> gives the decoded placements or the error text.
\<close>

fun loadPlacementData ::
  "machine \<Rightarrow> (byte list \<Rightarrow> string + ServerPixel list) \<Rightarrow> disk_file \<Rightarrow>
     abort + ServerPixel list" where
  "loadPlacementData m unmarshal NotExist = Inr []"
| "loadPlacementData m unmarshal (StatFails e) = Inl (Fatal e)"
| "loadPlacementData m unmarshal (Exists content openErr readErr) =
     (case openErr of
        Some e \<Rightarrow> Inl (Fatal e)
      | None \<Rightarrow>
          (case make_bytes m (int (length content)) of
             Inl a \<Rightarrow> Inl a
           | Inr fileBytes0 \<Rightarrow>
               (case readErr of
                  Some e \<Rightarrow> Inl (Fatal e)
                | None \<Rightarrow>
                    (case file_Read content fileBytes0 of
                       None \<Rightarrow> Inl (Fatal ''EOF'')
                     | Some fileBytes \<Rightarrow>
                         (case unmarshal fileBytes of
                            Inl e \<Rightarrow> Inl (Fatal e)
                          | Inr placements \<Rightarrow> Inr placements)))))"

text \<open>
  Lines 48-61 of \<^verbatim>\<open>main\<close>: both loads, in order. \<open>Inl\<close> means the process stopped before
  serving a request.
\<close>

definition startup ::
  "machine \<Rightarrow> Config \<Rightarrow> (byte list \<Rightarrow> string + ServerPixel list) \<Rightarrow>
     disk_file \<Rightarrow> disk_file \<Rightarrow> abort + state" where
  "startup m cfg unmarshal boardFile dataFile =
     (case loadCanvas m boardFile (expectedSize cfg) (DefaultColorIndex cfg) of
        Inl a \<Rightarrow> Inl a
      | Inr b \<Rightarrow>
          (case loadPlacementData m unmarshal dataFile of
             Inl a \<Rightarrow> Inl a
           | Inr l \<Rightarrow> Inr \<lparr>board = b, placementData = l\<rparr>))"

text \<open>
  The two save functions. \<open>werr\<close> is the error \<^verbatim>\<open>os.WriteFile\<close> returns, \<open>None\<close> when the
  write succeeds; the result is the new content of the file, or the end of the process.
\<close>

definition saveCanvas :: "string option \<Rightarrow> state \<Rightarrow> abort + byte list" where
  "saveCanvas werr st = (case werr of Some e \<Rightarrow> Inl (Fatal e) | None \<Rightarrow> Inr (board st))"

definition savePlacementData ::
  "(ServerPixel list \<Rightarrow> string + byte list) \<Rightarrow> string option \<Rightarrow> state \<Rightarrow> abort + byte list" where
  "savePlacementData marshal werr st =
     (case marshal (placementData st) of
        Inl e \<Rightarrow> Inl (Fatal e)
      | Inr placementBytes \<Rightarrow>
          (case werr of Some e \<Rightarrow> Inl (Fatal e) | None \<Rightarrow> Inr placementBytes))"

text \<open>
  The process as the ticker goroutine sees it: the variables in memory and the two files,
  or the process gone after \<^verbatim>\<open>os.Exit\<close>.
\<close>

datatype process =
    Running state disk_file disk_file
  | Exited abort

text \<open>One tick of the save goroutine (lines 67-69): the board first, then the placements.\<close>

definition saveTick ::
  "(ServerPixel list \<Rightarrow> string + byte list) \<Rightarrow> string option \<Rightarrow> string option \<Rightarrow>
     state \<Rightarrow> disk_file \<Rightarrow> disk_file \<Rightarrow> process" where
  "saveTick marshal werrBoard werrData st boardFile dataFile =
     (case saveCanvas werrBoard st of
        Inl a \<Rightarrow> Exited a
      | Inr boardBytes \<Rightarrow>
          (case savePlacementData marshal werrData st of
             Inl a \<Rightarrow> Exited a
           | Inr dataBytes \<Rightarrow> Running st (Exists boardBytes None None) (Exists dataBytes None None)))"

section \<open>Runs of the server\<close>

text \<open>
  The requests that touch the board or the placements, and the handler each is routed to.
\<close>

datatype request =
    GET_board
  | GET_pixel int int
  | POST_pixel "ClientPixel option" int

fun handle :: "Config \<Rightarrow> request \<Rightarrow> state \<Rightarrow> response \<times> state" where
  "handle cfg GET_board st = getBoard st"
| "handle cfg (GET_pixel x y) st = getPixel st x y"
| "handle cfg (POST_pixel body now) st = postPixel cfg body now st"

text \<open>
  The state after serving a list of requests one after the other. The handlers run to
  completion one at a time here; interleavings of goroutines are not part of this model.
\<close>

fun run :: "Config \<Rightarrow> request list \<Rightarrow> state \<Rightarrow> state" where
  "run cfg [] st = st"
| "run cfg (r # rs) st = run cfg rs (snd (handle cfg r st))"

section \<open>Replay of the log, in the words of the specification\<close>






section \<open>Boards used in the examples\<close>

text \<open>
  A linux/amd64 machine with 16 GiB free, and a 6 by 6 board with a palette of two
  colours, started with no files on disk.
\<close>

definition machine64 :: machine where
  "machine64 = \<lparr>maxAlloc = 2 ^ 48, freeMemory = 2 ^ 34\<rparr>"

definition cfg6 :: Config where
  "cfg6 = \<lparr>Width = 6, Height = 6, DefaultColorIndex = 0, Palette = [''000000'', ''FFFFFF'']\<rparr>"

definition boot6 :: state where
  "boot6 = \<lparr>board = replicate 36 0, placementData = []\<rparr>"

definition unmarshal_fails :: "byte list \<Rightarrow> string + ServerPixel list" where
  "unmarshal_fails bs = Inl ''unexpected end of JSON input''"

definition marshal_const :: "ServerPixel list \<Rightarrow> string + byte list" where
  "marshal_const ps = Inr []"

text \<open>Three placements at (5, 5): colour 1, then colour 2, then colour 3.\<close>

definition three_at_5_5 :: "request list" where
  "three_at_5_5 =
     [POST_pixel (Some \<lparr>cX = 5, cY = 5, cColor = 1\<rparr>) 10,
      POST_pixel (Some \<lparr>cX = 5, cY = 5, cColor = 2\<rparr>) 20,
      POST_pixel (Some \<lparr>cX = 5, cY = 5, cColor = 3\<rparr>) 30]"

text \<open>The state after colour 0 of the palette was placed at (5, 5).\<close>

definition zero_at_5_5 :: state where
  "zero_at_5_5 = run cfg6 [POST_pixel (Some \<lparr>cX = 5, cY = 5, cColor = 0\<rparr>) 10] boot6"

text \<open>A board of one cell whose default colour index is 300.\<close>

definition cfg300 :: Config where
  "cfg300 = \<lparr>Width = 1, Height = 1, DefaultColorIndex = 300, Palette = [''000000'']\<rparr>"

text \<open>
  A board 3 wide and 6148914691236517206 high: the product is \<open>2 ^ 64 + 2\<close>, which
  \<^verbatim>\<open>width * height\<close> computes as 2.
\<close>

definition cfgWide :: Config where
  "cfgWide = \<lparr>Width = 3, Height = 6148914691236517206, DefaultColorIndex = 0,
              Palette = [''000000'', ''FFFFFF'']\<rparr>"

definition bootWide :: state where
  "bootWide = \<lparr>board = [0, 0], placementData = []\<rparr>"

text \<open>A board file of \<open>2 ^ 30 + 1\<close> bytes, all equal to 1.\<close>

definition big_file :: "byte list" where
  "big_file = replicate (2 ^ 30) 1 @ [1]"

section \<open>Basic facts about the primitives and the handlers\<close>

lemma wrap64_id: "- (2 ^ 63) \<le> n \<Longrightarrow> n < 2 ^ 63 \<Longrightarrow> wrap64 n = n"
  by (simp add: wrap64_def)

lemma go_store_length: "go_store s i v = Some s' \<Longrightarrow> length s' = length s"
  by (auto simp: go_store_def split: if_splits)

lemma go_load_after_store: "go_store s i v = Some s' \<Longrightarrow> go_load s' i = Some v"
  by (auto simp: go_store_def go_load_def split: if_splits)

lemma to_byte_exact: "0 \<le> c \<Longrightarrow> c \<le> 255 \<Longrightarrow> uint (to_byte c) = c"
  by (simp add: to_byte_def uint_word_of_int take_bit_eq_mod)

lemma to_byte_mod: "uint (to_byte c) = c mod 256"
  by (simp add: to_byte_def uint_word_of_int take_bit_eq_mod)

lemma postPixel_Status200:
  assumes "postPixel cfg body now st = (Status 200, st')"
  shows "\<exists>cp. body = Some cp \<and> 0 \<le> cColor cp \<and> cColor cp \<le> 255
           \<and> 0 \<le> cX cp \<and> cX cp < Width cfg \<and> 0 \<le> cY cp \<and> cY cp < Height cfg
           \<and> go_store (board st) (cellIndex cfg (cX cp) (cY cp)) (to_byte (cColor cp)) = Some (board st')
           \<and> placementData st' = placementData st @ [\<lparr>X = cX cp, Y = cY cp, Color = cColor cp, Time = now\<rparr>]"
  using assms
  by (auto simp: postPixel_def split: option.splits if_splits)


lemma handle_length: "length (board (snd (handle cfg r st))) = length (board st)"
proof (cases r)
  case GET_board
  then show ?thesis by (simp add: getBoard_def)
next
  case (GET_pixel x y)
  then show ?thesis by (simp add: getPixel_def Let_def split: option.splits)
next
  case (POST_pixel body now)
  then show ?thesis
    by (auto simp: postPixel_def go_store_length split: option.splits)
qed

lemma run_length: "length (board (run cfg rs st)) = length (board st)"
  by (induction rs arbitrary: st) (simp_all add: handle_length)

lemma cellIndex_exact:
  assumes "Width cfg * Height cfg < 2 ^ 63" "0 \<le> x" "x < Width cfg" "0 \<le> y" "y < Height cfg"
  shows "cellIndex cfg x y = y * Width cfg + x \<and> 0 \<le> cellIndex cfg x y \<and> cellIndex cfg x y < Width cfg * Height cfg"
proof -
  have "y + 1 \<le> Height cfg" using assms by simp
  then have "(y + 1) * Width cfg \<le> Height cfg * Width cfg"
    using assms by (intro mult_right_mono) auto
  then have ub: "y * Width cfg + x < Width cfg * Height cfg"
    using assms by (simp add: algebra_simps)
  have lb: "0 \<le> y * Width cfg" using assms by simp
  have "y * Width cfg \<le> y * Width cfg + x" using assms by simp
  then have "y * Width cfg < Width cfg * Height cfg" using ub by (rule le_less_trans)
  then have m: "y * Width cfg < 2 ^ 63" using assms(1) by (rule less_trans)
  have "- (2 ^ 63) \<le> (0::int)" by simp
  then have "- (2 ^ 63) \<le> y * Width cfg" using lb by (rule order_trans)
  then have "go_mul y (Width cfg) = y * Width cfg"
    unfolding go_mul_def using m by (rule wrap64_id)
  moreover have "wrap64 (y * Width cfg + x) = y * Width cfg + x"
  proof (rule wrap64_id)
    have "(0::int) \<le> y * Width cfg + x" using lb assms(2) by (rule add_nonneg_nonneg)
    moreover have "- (2 ^ 63) \<le> (0::int)" by simp
    ultimately show "- (2 ^ 63) \<le> y * Width cfg + x" by (rule order_trans [rotated])
    show "y * Width cfg + x < 2 ^ 63" using ub assms(1) by (rule less_trans)
  qed
  ultimately show ?thesis using ub lb assms by (simp add: cellIndex_def go_add_def)
qed

lemma file_Read_length: "file_Read content buf = Some b \<Longrightarrow> length b = length buf"
  by (auto simp: file_Read_def Let_def split: if_splits)

lemma make_bytes_Inr:
  "make_bytes m n = Inr b \<Longrightarrow> 0 \<le> n \<and> n \<le> maxAlloc m \<and> n \<le> freeMemory m \<and> b = replicate (nat n) 0"
  by (auto simp: make_bytes_def split: if_splits)

lemma loadCanvas_length: "loadCanvas m f n d = Inr b \<Longrightarrow> int (length b) = n"
  by (auto dest!: make_bytes_Inr file_Read_length split: sum.splits disk_file.splits option.splits if_splits)

lemma startup_length:
  "startup m cfg um bf df = Inr st \<Longrightarrow> int (length (board st)) = expectedSize cfg"
  by (auto simp: startup_def dest: loadCanvas_length split: sum.splits simp del: loadCanvas.simps)


lemma expectedSize_exact:
  "- (2 ^ 63) \<le> Width cfg * Height cfg \<Longrightarrow> Width cfg * Height cfg < 2 ^ 63 \<Longrightarrow>
   expectedSize cfg = Width cfg * Height cfg"
  unfolding expectedSize_def go_mul_def by (rule wrap64_id)

lemma loadCanvas_existing_general:
  assumes "int (length content) = n" and "n \<le> maxAlloc m" and "n \<le> freeMemory m"
  shows "loadCanvas m (Exists content None None) n d =
           Inr (take maxRW content @ replicate (length content - maxRW) 0)"
proof -
  have mk: "make_bytes m n = Inr (replicate (length content) 0)"
    using assms by (auto simp: make_bytes_def)
  have rd: "file_Read content (replicate (length content) 0) =
      Some (take maxRW content @ replicate (length content - maxRW) 0)"
    by (auto simp: file_Read_def Let_def min_def)
  show ?thesis using assms(1) by (simp add: mk rd)
qed

lemma loadCanvas_existing_small:
  assumes "int (length content) = n" and "n \<le> maxAlloc m" and "n \<le> freeMemory m"
    and "length content \<le> maxRW"
  shows "loadCanvas m (Exists content None None) n d = Inr content"
  using loadCanvas_existing_general [OF assms(1-3), of d] assms(4)
  by (simp del: loadCanvas.simps)




text \<open>
  What the handlers do in general. \<^verbatim>\<open>GET /pixel\<close> answers with the first placement of the
  log that matches the coordinate; a successful \<^verbatim>\<open>POST /pixel\<close> stores the colour, appends
  the placement, and the cell then reads back as that colour; on a board whose length is
  the product of its dimensions every request that passes the three range checks succeeds.
\<close>

lemma IndexFunc_from_no_match:
  "\<forall>v\<in>set s. \<not> f v \<Longrightarrow> IndexFunc_from i s f = - 1"
  by (induction s arbitrary: i) auto

lemma IndexFunc_from_first_match:
  "\<forall>v\<in>set pre. \<not> f v \<Longrightarrow> f p \<Longrightarrow>
   IndexFunc_from i (pre @ p # post) f = i + int (length pre)"
  by (induction pre arbitrary: i) auto

lemma getPixel_first_match:
  assumes "placementData st = pre @ p # post"
    and "\<forall>q\<in>set pre. \<not> (X q = x \<and> Y q = y)" and "X p = x \<and> Y p = y"
  shows "getPixel st x y = (JSON200 p, st)"
proof -
  have "IndexFunc (placementData st) (\<lambda>pixel. X pixel = x \<and> Y pixel = y) = int (length pre)"
    unfolding IndexFunc_def assms(1)
    using IndexFunc_from_first_match [of pre "\<lambda>pixel. X pixel = x \<and> Y pixel = y" p 0 post] assms(2,3)
    by simp
  then show ?thesis
    by (simp add: getPixel_def go_load_def assms(1))
qed

lemma getPixel_no_match:
  assumes "\<forall>q\<in>set (placementData st). \<not> (X q = x \<and> Y q = y)"
  shows "getPixel st x y = (Panicked (Some 404), st)"
proof -
  have "IndexFunc (placementData st) (\<lambda>pixel. X pixel = x \<and> Y pixel = y) = - 1"
    unfolding IndexFunc_def using assms by (intro IndexFunc_from_no_match) auto
  then show ?thesis
    by (simp add: getPixel_def go_load_def)
qed

lemma Place_success_effect:
  assumes "Place cfg x y c now st = (Status 200, st')"
  shows "go_store (board st) (cellIndex cfg x y) (to_byte c) = Some (board st')
         \<and> placementData st' = placementData st @ [\<lparr>X = x, Y = y, Color = c, Time = now\<rparr>]
         \<and> boardAt cfg st' x y = Some (to_byte c)
         \<and> uint (to_byte c) = c"
proof -
  from postPixel_Status200 [OF assms [unfolded Place_def]]
  have c: "0 \<le> c" "c \<le> 255"
    and s: "go_store (board st) (cellIndex cfg x y) (to_byte c) = Some (board st')"
    and l: "placementData st' = placementData st @ [\<lparr>X = x, Y = y, Color = c, Time = now\<rparr>]"
    by auto
  from s have "boardAt cfg st' x y = Some (to_byte c)"
    unfolding boardAt_def by (rule go_load_after_store)
  with c s l show ?thesis by (simp add: to_byte_exact)
qed

lemma Place_succeeds:
  assumes "int (length (board st)) = Width cfg * Height cfg"
    and "Width cfg * Height cfg < 2 ^ 63"
    and "0 \<le> x" "x < Width cfg" "0 \<le> y" "y < Height cfg" "0 \<le> c" "c \<le> 255"
  shows "fst (Place cfg x y c now st) = Status 200"
proof -
  from cellIndex_exact [OF assms(2-6)] assms(1)
  have "0 \<le> cellIndex cfg x y \<and> cellIndex cfg x y < int (length (board st))" by simp
  then show ?thesis using assms(3-8)
    by (simp add: Place_def postPixel_def go_store_def)
qed

lemmas example_defs = machine64_def cfg6_def boot6_def three_at_5_5_def zero_at_5_5_def
  unmarshal_fails_def marshal_const_def cfg300_def cfgWide_def bootWide_def

lemmas handler_defs = Place_def postPixel_def getPixel_def getBoard_def boardAt_def IndexFunc_def
  go_load_def go_store_def cellIndex_def expectedSize_def go_add_def go_mul_def wrap64_def
  to_byte_def make_bytes_def startup_def InvalidColor_def OutOfBounds_def

section \<open>C1: the lookup by coordinate\<close>

text \<open>
  C1. The claim is that \<open>FindLatest(x, y)\<close> returns the matching placement appended last,
  and fails with NotFound when the coordinate was never written. Evaluated on the code:
  after colour 1, colour 2 and colour 3 are placed at (5, 5) in this order, \<^verbatim>\<open>GET /pixel\<close>
  for (5, 5) answers with the placement of colour 1, the first match of
  \<^verbatim>\<open>slices.IndexFunc\<close>; and on a coordinate never written the handler records 404 and then
  panics on \<^verbatim>\<open>placementData[-1]\<close> instead of returning.
\<close>

theorem getPixel_three_placements:
  "fst (getPixel (run cfg6 three_at_5_5 boot6) 5 5) = JSON200 \<lparr>X = 5, Y = 5, Color = 1, Time = 10\<rparr>
   \<and> fst (getPixel boot6 5 5) = Panicked (Some 404)"
  by (simp add: example_defs handler_defs)

section \<open>C2: the effect of a successful placement\<close>

text \<open>
  C2. The claim is that for an in-bounds coordinate and a colour index inside the palette,
  a successful \<open>Place(x, y, colorIndex, now)\<close> writes the colour at index
  \<open>y * width + x\<close>, appends one placement at the end of the log, and that the cell then
  reads as \<open>colorIndex\<close> and \<open>FindLatest(x, y)\<close> returns a placement with that colour.
  Evaluated on the code with the two colours of the palette: colour 0 is placed at (5, 5),
  then colour 1. The grid and the log are updated as claimed and the cell reads 1, but
  \<^verbatim>\<open>GET /pixel\<close> still answers with the older placement of colour 0.
\<close>

theorem Place_then_getPixel_stale:
  "(0::int) \<le> 1 \<and> 1 < int (length (Palette cfg6))
   \<and> (0::int) \<le> 5 \<and> 5 < Width cfg6 \<and> 5 < Height cfg6
   \<and> Place cfg6 5 5 1 20 zero_at_5_5 =
       (Status 200,
        \<lparr>board = (replicate 36 0)[35 := 1],
         placementData = [\<lparr>X = 5, Y = 5, Color = 0, Time = 10\<rparr>, \<lparr>X = 5, Y = 5, Color = 1, Time = 20\<rparr>]\<rparr>)
   \<and> boardAt cfg6 (snd (Place cfg6 5 5 1 20 zero_at_5_5)) 5 5 = Some 1
   \<and> fst (getPixel (snd (Place cfg6 5 5 1 20 zero_at_5_5)) 5 5) = JSON200 \<lparr>X = 5, Y = 5, Color = 0, Time = 10\<rparr>"
  by (simp add: example_defs handler_defs)

section \<open>C3: the colour range\<close>

text \<open>
  C3, as stated, fails: the claim is that a colour outside \<open>[0, paletteSize)\<close> is refused
  with InvalidColor. With a palette of two entries, colour 5 is accepted: the cell is
  written and the log grows.
\<close>

theorem Place_accepts_colour_beyond_palette:
  "length (Palette cfg6) = 2
   \<and> fst (Place cfg6 0 0 5 10 boot6) = Status 200
   \<and> board (snd (Place cfg6 0 0 5 10 boot6)) ! 0 = 5
   \<and> length (placementData (snd (Place cfg6 0 0 5 10 boot6))) = 1"
  by (simp add: example_defs handler_defs)

text \<open>
  C3, amended: the range the handler checks is that of a byte. For every colour outside
  \<open>[0, 256)\<close> and every coordinate, \<open>Place\<close> fails with InvalidColor and leaves the grid
  and the log unchanged; for a colour inside \<open>[0, 256)\<close> it never fails with
  InvalidColor. The palette plays no part.
\<close>

theorem Place_InvalidColor_byte_range:
  "(c < 0 \<or> 255 < c \<longrightarrow> Place cfg x y c now st = (InvalidColor, st))
   \<and> (0 \<le> c \<and> c \<le> 255 \<longrightarrow> fst (Place cfg x y c now st) \<noteq> InvalidColor)"
  by (auto simp: Place_def postPixel_def InvalidColor_def split: option.splits)

theorem Place_InvalidColor_byte_range_witness:
  "Place cfg6 0 0 256 10 boot6 = (InvalidColor, boot6)
   \<and> fst (Place cfg6 0 0 255 10 boot6) \<noteq> InvalidColor"
  using Place_InvalidColor_byte_range [of 256 cfg6 0 0 10 boot6]
        Place_InvalidColor_byte_range [of 255 cfg6 0 0 10 boot6]
  by simp

section \<open>C4: the grid is the replay of the log\<close>




section \<open>C5: a failed save\<close>

text \<open>
  C5, as stated, fails: the claim is that a write failure of a save is logged and does not
  end the process. Both save functions call \<^verbatim>\<open>log.Fatalln\<close> on the error of
  \<^verbatim>\<open>os.WriteFile\<close>, so the tick ends the process.
\<close>

theorem saveTick_write_failure_exits:
  "saveTick marshal_const (Some ''no space left on device'') None boot6 NotExist NotExist
     = Exited (Fatal ''no space left on device'')
   \<and> saveTick marshal_const None (Some ''no space left on device'') boot6 NotExist NotExist
     = Exited (Fatal ''no space left on device'')"
  by (simp add: saveTick_def saveCanvas_def savePlacementData_def marshal_const_def)

text \<open>
  C5, amended: every write failure of \<^verbatim>\<open>saveCanvas\<close> or \<^verbatim>\<open>savePlacementData\<close> is logged
  and ends the process with that error, so no later tick retries it; a tick that leaves
  the process running had no write failure and did not change the grid or the log in
  memory.
\<close>

theorem save_failure_is_fatal:
  "saveCanvas (Some e) st = Inl (Fatal e)
   \<and> (marshal (placementData st) = Inr bytes \<longrightarrow> savePlacementData marshal (Some e) st = Inl (Fatal e))
   \<and> saveTick marshal (Some e) werrData st boardFile dataFile = Exited (Fatal e)
   \<and> (marshal (placementData st) = Inr bytes \<longrightarrow>
        saveTick marshal None (Some e) st boardFile dataFile = Exited (Fatal e))
   \<and> (saveTick marshal werrBoard werrData st boardFile dataFile = Running st' boardFile' dataFile' \<longrightarrow>
        st' = st \<and> werrBoard = None \<and> werrData = None)"
  by (auto simp: saveTick_def saveCanvas_def savePlacementData_def split: option.splits sum.splits)

theorem save_failure_is_fatal_witness:
  "marshal_const (placementData boot6) = Inr []
   \<and> savePlacementData marshal_const (Some ''no space left on device'') boot6
       = Inl (Fatal ''no space left on device'')
   \<and> saveTick marshal_const None (Some ''no space left on device'') boot6 NotExist NotExist
       = Exited (Fatal ''no space left on device'')
   \<and> saveTick marshal_const None None boot6 NotExist NotExist
       = Running boot6 (Exists (board boot6) None None) (Exists [] None None)"
proof -
  have m: "marshal_const (placementData boot6) = Inr []"
    by (simp add: marshal_const_def)
  have r: "saveTick marshal_const None None boot6 NotExist NotExist
       = Running boot6 (Exists (board boot6) None None) (Exists [] None None)"
    by (simp add: saveTick_def saveCanvas_def savePlacementData_def marshal_const_def)
  from m r
    save_failure_is_fatal [of "''no space left on device''" boot6 marshal_const "[]" None NotExist NotExist
      None boot6 "Exists (board boot6) None None" "Exists [] None None"]
  show ?thesis by simp
qed

section \<open>C6: coordinates outside the board\<close>

text \<open>
  C6, as stated, fails: the claim is that for every coordinate outside the board and every
  colour, \<open>Place\<close> and \<open>ReadCell\<close> fail with OutOfBounds. The colour is checked first, so
  with colour 300 the failure of \<open>Place\<close> at (-1, 0) is InvalidColor. The only read of one
  cell in the program, \<^verbatim>\<open>board[y*width+x]\<close> in the image loop, checks no coordinate: at
  \<open>x = width\<close>, \<open>y = 0\<close> it reads the first cell of the next row.
\<close>

theorem Place_bad_colour_before_bounds:
  "fst (Place cfg6 (- 1) 0 300 10 boot6) = InvalidColor
   \<and> \<not> OutOfBounds (fst (Place cfg6 (- 1) 0 300 10 boot6))
   \<and> boardAt cfg6 boot6 6 0 = Some 0"
  by (simp add: example_defs handler_defs)

text \<open>
  C6, amended: for every coordinate outside \<open>[0, width) \<times> [0, height)\<close>, \<open>Place\<close> fails
  and leaves the grid and the log unchanged; the failure is OutOfBounds when the colour is
  in \<open>[0, 256)\<close> and InvalidColor otherwise. The program has no operation that reads one
  cell by coordinate, so nothing is stated about \<open>ReadCell\<close>.
\<close>

theorem Place_out_of_bounds:
  assumes "x < 0 \<or> Width cfg \<le> x \<or> y < 0 \<or> Height cfg \<le> y"
  shows "snd (Place cfg x y c now st) = st
         \<and> (if 0 \<le> c \<and> c \<le> 255 then OutOfBounds (fst (Place cfg x y c now st))
            else fst (Place cfg x y c now st) = InvalidColor)"
  using assms by (auto simp: Place_def postPixel_def InvalidColor_def OutOfBounds_def)

theorem Place_out_of_bounds_witness:
  "Width cfg6 \<le> 6
   \<and> snd (Place cfg6 6 0 1 10 boot6) = boot6
   \<and> OutOfBounds (fst (Place cfg6 6 0 1 10 boot6))"
proof -
  have h: "6 < 0 \<or> Width cfg6 \<le> 6 \<or> (0::int) < 0 \<or> Height cfg6 \<le> 0"
    by (simp add: cfg6_def)
  from Place_out_of_bounds [OF h, of 1 10 boot6] show ?thesis
    by (simp add: cfg6_def)
qed

section \<open>C7: loading when the files are missing\<close>

text \<open>
  C7, as stated, fails: the claim is that for every \<open>expectedSize\<close> and
  \<open>defaultColorIndex\<close> the load of a missing grid file returns \<open>expectedSize\<close> bytes all
  equal to \<open>defaultColorIndex\<close>. A negative size makes \<^verbatim>\<open>make\<close> panic, so does a size of
  \<open>2 ^ 62\<close>, beyond what one allocation may hold, and a default colour of 300 is stored
  as \<open>byte(300) = 44\<close>.
\<close>

theorem loadCanvas_missing_file_edge_cases:
  "loadCanvas machine64 NotExist (- 1) 0 = Inl PanicMakeslice
   \<and> loadCanvas machine64 NotExist (2 ^ 62) 0 = Inl PanicMakeslice
   \<and> loadCanvas machine64 NotExist 1 300 = Inr [44]"
  by (simp add: make_bytes_def to_byte_def machine64_def)

text \<open>
  C7, amended: for every \<open>expectedSize \<ge> 0\<close> that \<^verbatim>\<open>make\<close> can allocate (at most the
  runtime's bound on one allocation and at most the free memory) and every
  \<open>defaultColorIndex\<close>, \<^verbatim>\<open>loadCanvas\<close> on a missing path returns, without error, exactly
  \<open>expectedSize\<close> bytes all equal to \<open>byte(defaultColorIndex)\<close>, whose value is
  \<open>defaultColorIndex mod 256\<close>; and \<^verbatim>\<open>loadPlacementData\<close> on a missing path returns the
  empty sequence.
\<close>

theorem load_missing_files:
  assumes "0 \<le> n" and "n \<le> maxAlloc m" and "n \<le> freeMemory m"
  shows "loadCanvas m NotExist n d = Inr (replicate (nat n) (to_byte d))
         \<and> int (length (replicate (nat n) (to_byte d))) = n
         \<and> uint (to_byte d) = d mod 256
         \<and> loadPlacementData m unmarshal NotExist = Inr []"
  using assms by (simp add: make_bytes_def map_replicate_const to_byte_mod)

theorem load_missing_files_witness:
  "(0::int) \<le> 3 \<and> 3 \<le> maxAlloc machine64 \<and> 3 \<le> freeMemory machine64
   \<and> loadCanvas machine64 NotExist 3 7 = Inr [7, 7, 7]
   \<and> uint (to_byte 7) = 7
   \<and> loadPlacementData machine64 unmarshal_fails NotExist = Inr []"
proof -
  have h: "(0::int) \<le> 3" by simp
  have a: "3 \<le> maxAlloc machine64" by (simp add: machine64_def)
  have f: "3 \<le> freeMemory machine64" by (simp add: machine64_def)
  from h a f load_missing_files [OF h a f, of 7 unmarshal_fails] show ?thesis
    by (simp add: to_byte_def numeral_3_eq_3 del: loadCanvas.simps)
qed

section \<open>C8: loading an existing grid file\<close>

text \<open>
  C8. The claim is that an existing grid file of the wrong length is fatal and that one of
  the right length is returned byte for byte, never truncated or padded. Evaluated on the
  code at a file of \<open>2 ^ 30 + 1\<close> bytes, all equal to 1, with that expected size: the one
  \<^verbatim>\<open>file.Read\<close> of line 188 transfers \<open>2 ^ 30\<close> bytes, the count is discarded, and the
  buffer comes back with its last byte still zero. (A file of at most \<open>2 ^ 30\<close> bytes
  comes back whole: lemma \<open>loadCanvas_existing_small\<close>.)
\<close>

theorem loadCanvas_large_file_zero_padded:
  "int (length big_file) = 2 ^ 30 + 1
   \<and> loadCanvas machine64 (Exists big_file None None) (2 ^ 30 + 1) 0
       = Inr (replicate (2 ^ 30) 1 @ [0])
   \<and> big_file = replicate (2 ^ 30) 1 @ [1]"
proof -
  have l: "int (length big_file) = 2 ^ 30 + 1"
    by (simp add: big_file_def)
  have a: "(2 ^ 30 + 1 :: int) \<le> maxAlloc machine64" by (simp add: machine64_def)
  have f: "(2 ^ 30 + 1 :: int) \<le> freeMemory machine64" by (simp add: machine64_def)
  have "take maxRW big_file @ replicate (length big_file - maxRW) 0 = replicate (2 ^ 30) 1 @ [0]"
    by (simp add: big_file_def maxRW_def)
  with loadCanvas_existing_general [OF l a f, of 0] l show ?thesis
    by (simp add: big_file_def del: loadCanvas.simps)
qed

section \<open>C9: the length of the grid\<close>

text \<open>
  C9, as stated, fails: the claim is that the grid always has \<open>width * height\<close> cells and
  that the index \<open>y * width + x\<close> of a placement with \<open>0 \<le> x < width\<close> and
  \<open>0 \<le> y < height\<close> is within bounds. With width 3 and height 6148914691236517206 the
  product \<open>2 ^ 64 + 2\<close> wraps around to 2, the grid has 2 cells, and the placement at
  (2, 0), which passes the range checks, panics on index 2.
\<close>

theorem wide_board_is_short:
  "startup machine64 cfgWide unmarshal_fails NotExist NotExist = Inr bootWide
   \<and> int (length (board bootWide)) = 2
   \<and> Width cfgWide * Height cfgWide = 2 ^ 64 + 2
   \<and> (0::int) \<le> 2 \<and> 2 < Width cfgWide \<and> (0::int) \<le> 0 \<and> 0 < Height cfgWide
   \<and> Place cfgWide 2 0 1 10 bootWide = (Panicked None, bootWide)"
proof -
  have two: "replicate 2 x = [x, x]" for x :: byte
    by (simp add: numeral_2_eq_2)
  have a: "startup machine64 cfgWide unmarshal_fails NotExist NotExist = Inr bootWide"
    by (simp add: example_defs handler_defs two)
  have b: "int (length (board bootWide)) = 2"
    by (simp add: bootWide_def)
  have c: "Width cfgWide * Height cfgWide = 2 ^ 64 + 2"
    by (simp add: cfgWide_def)
  have d: "(0::int) \<le> 2 \<and> 2 < Width cfgWide \<and> (0::int) \<le> 0 \<and> 0 < Height cfgWide"
    by (simp add: cfgWide_def)
  have e: "Place cfgWide 2 0 1 10 bootWide = (Panicked None, bootWide)"
    by (simp add: example_defs handler_defs)
  from a b c d e show ?thesis by blast
qed

text \<open>
  C9, amended: when \<open>width * height\<close> is computed without overflow, then in every state
  reached after a successful startup by serving requests the length of the grid is exactly
  \<open>width * height\<close>; every handler and the save tick keep it; for \<open>0 \<le> x < width\<close> and
  \<open>0 \<le> y < height\<close> the index \<open>y * width + x\<close> is computed exactly and lies inside the
  grid; and a successful \<open>Place\<close> changes the grid only at that index.
\<close>

theorem board_length_invariant:
  assumes "startup m cfg unmarshal boardFile dataFile = Inr st0" and "st = run cfg rs st0"
    and "- (2 ^ 63) \<le> Width cfg * Height cfg" and "Width cfg * Height cfg < 2 ^ 63"
  shows "int (length (board st)) = Width cfg * Height cfg
         \<and> length (board (snd (handle cfg r st))) = length (board st)
         \<and> (saveTick marshal werrBoard werrData st boardFile' dataFile' = Running st' boardFile'' dataFile''
              \<longrightarrow> st' = st)
         \<and> (0 \<le> x \<and> x < Width cfg \<and> 0 \<le> y \<and> y < Height cfg \<longrightarrow>
              cellIndex cfg x y = y * Width cfg + x
              \<and> 0 \<le> y * Width cfg + x \<and> y * Width cfg + x < int (length (board st)))
         \<and> (Place cfg x y c now st = (Status 200, st'') \<longrightarrow>
              0 \<le> x \<and> x < Width cfg \<and> 0 \<le> y \<and> y < Height cfg
              \<and> board st'' = (board st)[nat (y * Width cfg + x) := to_byte c]
              \<and> int (length (board st'')) = Width cfg * Height cfg)"
proof -
  have sz: "expectedSize cfg = Width cfg * Height cfg"
    using assms(3,4) by (rule expectedSize_exact)
  have len: "int (length (board st)) = Width cfg * Height cfg"
    using assms(1,2) sz by (simp add: run_length startup_length)
  have tick: "saveTick marshal werrBoard werrData st boardFile' dataFile' = Running st' boardFile'' dataFile''
      \<longrightarrow> st' = st"
    by (auto simp: saveTick_def split: sum.splits)
  have inb: "cellIndex cfg x y = y * Width cfg + x
      \<and> 0 \<le> y * Width cfg + x \<and> y * Width cfg + x < int (length (board st))"
    if "0 \<le> x \<and> x < Width cfg \<and> 0 \<le> y \<and> y < Height cfg"
  proof -
    from that have "cellIndex cfg x y = y * Width cfg + x \<and> 0 \<le> cellIndex cfg x y
        \<and> cellIndex cfg x y < Width cfg * Height cfg"
      by (intro cellIndex_exact assms(4)) auto
    with len show ?thesis by simp
  qed
  have place: "0 \<le> x \<and> x < Width cfg \<and> 0 \<le> y \<and> y < Height cfg
      \<and> board st'' = (board st)[nat (y * Width cfg + x) := to_byte c]
      \<and> int (length (board st'')) = Width cfg * Height cfg"
    if p: "Place cfg x y c now st = (Status 200, st'')"
  proof -
    from postPixel_Status200 [OF p [unfolded Place_def]]
    have b: "0 \<le> x \<and> x < Width cfg \<and> 0 \<le> y \<and> y < Height cfg"
      and s: "go_store (board st) (cellIndex cfg x y) (to_byte c) = Some (board st'')"
      by auto
    from inb [OF b] have ix: "cellIndex cfg x y = y * Width cfg + x" by simp
    from s have "board st'' = (board st)[nat (y * Width cfg + x) := to_byte c]"
      unfolding ix by (auto simp: go_store_def split: if_splits)
    moreover from s have "length (board st'') = length (board st)" by (rule go_store_length)
    ultimately show ?thesis using b len by simp
  qed
  have "length (board (snd (handle cfg r st))) = length (board st)"
    by (rule handle_length)
  with len tick inb place show ?thesis by blast
qed

theorem board_length_invariant_witness:
  "startup machine64 cfg6 unmarshal_fails NotExist NotExist = Inr boot6
   \<and> zero_at_5_5 = run cfg6 [POST_pixel (Some \<lparr>cX = 5, cY = 5, cColor = 0\<rparr>) 10] boot6
   \<and> - (2 ^ 63) \<le> Width cfg6 * Height cfg6 \<and> Width cfg6 * Height cfg6 < 2 ^ 63
   \<and> int (length (board zero_at_5_5)) = Width cfg6 * Height cfg6
   \<and> length (board (snd (handle cfg6 GET_board zero_at_5_5))) = length (board zero_at_5_5)
   \<and> saveTick marshal_const None None zero_at_5_5 NotExist NotExist
        = Running zero_at_5_5 (Exists (board zero_at_5_5) None None) (Exists [] None None)
   \<and> (0::int) \<le> 5 \<and> 5 < Width cfg6 \<and> 5 < Height cfg6
   \<and> cellIndex cfg6 5 5 = 5 * Width cfg6 + 5
   \<and> 5 * Width cfg6 + 5 < int (length (board zero_at_5_5))
   \<and> Place cfg6 5 5 1 20 zero_at_5_5 = (Status 200, snd (Place cfg6 5 5 1 20 zero_at_5_5))
   \<and> board (snd (Place cfg6 5 5 1 20 zero_at_5_5))
        = (board zero_at_5_5)[nat (5 * Width cfg6 + 5) := to_byte 1]
   \<and> int (length (board (snd (Place cfg6 5 5 1 20 zero_at_5_5)))) = Width cfg6 * Height cfg6"
proof -
  have h: "startup machine64 cfg6 unmarshal_fails NotExist NotExist = Inr boot6"
    by (simp add: example_defs handler_defs)
  have r: "zero_at_5_5 = run cfg6 [POST_pixel (Some \<lparr>cX = 5, cY = 5, cColor = 0\<rparr>) 10] boot6"
    by (simp add: zero_at_5_5_def)
  have a: "- (2 ^ 63) \<le> Width cfg6 * Height cfg6" by (simp add: cfg6_def)
  have b: "Width cfg6 * Height cfg6 < 2 ^ 63" by (simp add: cfg6_def)
  have t: "saveTick marshal_const None None zero_at_5_5 NotExist NotExist
        = Running zero_at_5_5 (Exists (board zero_at_5_5) None None) (Exists [] None None)"
    by (simp add: saveTick_def saveCanvas_def savePlacementData_def marshal_const_def)
  have p: "Place cfg6 5 5 1 20 zero_at_5_5 = (Status 200, snd (Place cfg6 5 5 1 20 zero_at_5_5))"
    by (simp add: example_defs handler_defs)
  have c: "(0::int) \<le> 5 \<and> 5 < Width cfg6 \<and> (0::int) \<le> 5 \<and> 5 < Height cfg6"
    by (simp add: cfg6_def)
  from h r a b t p c
    board_length_invariant [OF h r a b, of GET_board marshal_const None None NotExist NotExist
      zero_at_5_5 "Exists (board zero_at_5_5) None None" "Exists [] None None"
      5 5 1 20 "snd (Place cfg6 5 5 1 20 zero_at_5_5)"]
  show ?thesis by blast
qed

end
